theory Spec2Isabelle
  imports Complex_Main
begin

section \<open>Values, tables and errors\<close>

text \<open>
  The program is \<^verbatim>\<open>src/server.py\<close>. A closing price is a float64 cell of a pandas table.
  A cell is modelled as \<open>real option\<close>: \<open>None\<close> is the missing value (NaN, what
  \<^verbatim>\<open>pd.notna\<close> rejects), \<open>Some x\<close> a number. Arithmetic on numbers is exact: the rounding
  error of binary floating point and the infinities are outside the model.
\<close>

type_synonym cell = "real option"

definition notna :: "cell \<Rightarrow> bool" where
  "notna v = (v \<noteq> None)"

text \<open>
  A \<^verbatim>\<open>pd.DataFrame\<close>: the length of its index and its columns in their fixed order, each
  with its top-level label. A flat table has one column labelled \<^verbatim>\<open>Close\<close>; a table with a
  nested column index has several.
\<close>

record DataFrame =
  nrows :: nat
  columns :: "(string \<times> cell list) list"

definition rectangular :: "DataFrame \<Rightarrow> bool" where
  "rectangular df = list_all (\<lambda>lc. length (snd lc) = nrows df) (columns df)"

text \<open>The exceptions the two functions can raise.\<close>

datatype exn =
    ValueError string
  | IndexError
  | ZeroDivisionError
  | HTTPException nat string

section \<open>The series extractor: \<^verbatim>\<open>_get_last_close_and_dma\<close>\<close>

text \<open>\<^verbatim>\<open>data.empty\<close>: one of the two axes has length 0.\<close>

definition df_empty :: "DataFrame \<Rightarrow> bool" where
  "df_empty df = (nrows df = 0 \<or> columns df = [])"

text \<open>
  \<^verbatim>\<open>data["Close"] if "Close" in data.columns else None\<close>: the columns whose top-level
  label is \<^verbatim>\<open>Close\<close>, in table order, passed through \<^verbatim>\<open>pd.DataFrame(...)\<close>.
\<close>

definition close_column :: "DataFrame \<Rightarrow> cell list list option" where
  "close_column df =
     (if ''Close'' \<in> set (map fst (columns df))
      then Some (map snd (filter (\<lambda>lc. fst lc = ''Close'') (columns df)))
      else None)"

text \<open>
  \<^verbatim>\<open>rolling(window=w).mean()\<close> on one column. The minimum number of observations is the
  window length, so a position has a value only when the \<open>w\<close> rows ending there exist and
  all hold a number.
\<close>

definition window_mean :: "nat \<Rightarrow> cell list \<Rightarrow> cell" where
  "window_mean w ws =
     (if length ws = w \<and> list_all notna ws
      then Some (sum_list (map the ws) / real w)
      else None)"

definition rolling_mean :: "nat \<Rightarrow> cell list \<Rightarrow> cell list" where
  "rolling_mean w col =
     map (\<lambda>i. window_mean w (drop (Suc i - w) (take (Suc i) col))) [0..<length col]"

text \<open>The rows of a table given by its columns.\<close>

definition rows_of :: "nat \<Rightarrow> cell list list \<Rightarrow> cell list list" where
  "rows_of n cols = map (\<lambda>i. map (\<lambda>c. c ! i) cols) [0..<n]"

text \<open>\<^verbatim>\<open>dropna(how="all")\<close>: keep the rows that hold at least one number.\<close>

definition dropna_all :: "cell list list \<Rightarrow> cell list list" where
  "dropna_all rs = filter (list_ex notna) rs"

text \<open>\<^verbatim>\<open>.iloc[-1]\<close> raises IndexError on a table without rows.\<close>

definition iloc_last :: "cell list list \<Rightarrow> exn + cell list" where
  "iloc_last rs = (if rs = [] then Inl IndexError else Inr (last rs))"

text \<open>
  The loop \<^verbatim>\<open>for v in row.values: if pd.notna(v): x = float(v); break\<close> over a variable
  that starts as \<^verbatim>\<open>None\<close>.
\<close>

fun first_notna :: "cell list \<Rightarrow> real option" where
  "first_notna [] = None"
| "first_notna (v # vs) = (case v of Some x \<Rightarrow> Some x | None \<Rightarrow> first_notna vs)"

definition window :: nat where
  "window = 200"

definition get_last_close_and_dma :: "DataFrame option \<Rightarrow> exn + (real \<times> real)" where
  "get_last_close_and_dma data =
     (case data of
        None \<Rightarrow> Inl (ValueError ''no data'')
      | Some df \<Rightarrow>
          if df_empty df then Inl (ValueError ''no data'')
          else
            (case close_column df of
               None \<Rightarrow> Inl (ValueError ''no Close column'')
             | Some close_df \<Rightarrow>
                 let dma = map (rolling_mean window) close_df in
                 (case iloc_last (dropna_all (rows_of (nrows df) close_df)) of
                    Inl e \<Rightarrow> Inl e
                  | Inr last_close_row \<Rightarrow>
                      let dma_rows = dropna_all (rows_of (nrows df) dma);
                          last_dma_row = (if dma_rows \<noteq> [] then Some (last dma_rows) else None);
                          last_close = first_notna last_close_row;
                          last_dma = (case last_dma_row of
                                        None \<Rightarrow> None
                                      | Some r \<Rightarrow> first_notna r)
                      in
                        (case (last_close, last_dma) of
                           (Some c, Some d) \<Rightarrow> Inr (c, d)
                         | _ \<Rightarrow> Inl (ValueError ''insufficient data for 200DMA or last close'')))))"

section \<open>The dip classifier and the batch: \<^verbatim>\<open>get_dip\<close>\<close>

definition amount :: real where "amount = 100.0"
definition dip_100 :: real where "dip_100 = 10.0"
definition dip_50 :: real where "dip_50 = 7.0"
definition dip_25 :: real where "dip_25 = 4.0"

text \<open>
  The action labels start with a coloured-circle emoji; a \<open>string\<close> holds bytes, so each
  label is written as the UTF-8 encoding of the source's literal.
\<close>

definition action_100 :: string where
  "action_100 = [CHR 0xF0, CHR 0x9F, CHR 0x9F, CHR 0xA2] @ '' Deploy 100%''"
definition action_50 :: string where
  "action_50 = [CHR 0xF0, CHR 0x9F, CHR 0x9F, CHR 0xA1] @ '' Deploy 50%''"
definition action_25 :: string where
  "action_25 = [CHR 0xF0, CHR 0x9F, CHR 0x9F, CHR 0xA0] @ '' Deploy 25%''"
definition action_hold :: string where
  "action_hold = [CHR 0xE2, CHR 0x9A, CHR 0xAA] @ '' Hold''"

text \<open>
  Python's \<^verbatim>\<open>round(x, ndigits)\<close> on an exactly represented value: to the nearest multiple
  of \<open>10 ^ - ndigits\<close>, a tie going to the even one.
\<close>

definition round_half_even :: "real \<Rightarrow> int" where
  "round_half_even y =
     (let f = \<lfloor>y\<rfloor>; d = y - of_int f
      in if d < 1 / 2 then f else if d > 1 / 2 then f + 1 else if even f then f else f + 1)"

definition py_round :: "real \<Rightarrow> nat \<Rightarrow> real" where
  "py_round x ndigits = of_int (round_half_even (x * 10 ^ ndigits)) / 10 ^ ndigits"

text \<open>Float division raises on a zero divisor.\<close>

definition truediv :: "real \<Rightarrow> real \<Rightarrow> exn + real" where
  "truediv a b = (if b = 0 then Inl ZeroDivisionError else Inr (a / b))"

text \<open>\<^verbatim>\<open>dip = ((last_dma - last_close) / last_dma) * 100\<close>\<close>

definition dip_percent :: "real \<Rightarrow> real \<Rightarrow> exn + real" where
  "dip_percent last_close last_dma =
     (case truediv (last_dma - last_close) last_dma of
        Inl e \<Rightarrow> Inl e
      | Inr q \<Rightarrow> Inr (q * 100))"

text \<open>The \<^verbatim>\<open>if / elif / elif / else\<close> ladder: the action and the amount to deploy.\<close>

definition select_tier :: "real \<Rightarrow> string \<times> real" where
  "select_tier dip =
     (if dip \<ge> dip_100 then (action_100, amount)
      else if dip \<ge> dip_50 then (action_50, 0.5 * amount)
      else if dip \<ge> dip_25 then (action_25, 0.25 * amount)
      else (action_hold, 0))"

text \<open>One entry of the result list (the dictionary appended at the end of the loop body).\<close>

record entry =
  Index :: string
  Ticker :: string
  Current_Price :: real
  DMA_200 :: real
  Dip_pct :: real
  Action :: string
  Deploy :: real

text \<open>The loop body after a successful extraction, lines 164 to 187.\<close>

definition classify :: "string \<Rightarrow> string \<Rightarrow> real \<Rightarrow> real \<Rightarrow> exn + entry" where
  "classify name ticker last_close last_dma =
     (case dip_percent last_close last_dma of
        Inl e \<Rightarrow> Inl e
      | Inr dip \<Rightarrow>
          (case select_tier dip of
             (action, deploy_amount) \<Rightarrow>
               Inr \<lparr> Index = name, Ticker = ticker,
                     Current_Price = py_round last_close 2,
                     DMA_200 = py_round last_dma 2,
                     Dip_pct = py_round dip 2,
                     Action = action,
                     Deploy = py_round deploy_amount 2 \<rparr>))"

definition index_options :: "(string \<times> string) list" where
  "index_options =
     [(''S&P 500'', ''^GSPC''),
      (''Nifty 50'', ''^NSEI''),
      (''Nifty Midcap 150'', ''0P0001IAU9.BO''),
      (''Nifty Smallcap 250'', ''0P0001Q0UH.BO''),
      (''NASDAQ'', ''^IXIC''),
      (''BTC'', ''BTC-USD'')]"

text \<open>
  What \<^verbatim>\<open>yf.download\<close> does for one ticker over the fixed date range: it raises, or it
  returns a table or \<^verbatim>\<open>None\<close>. The provider is a parameter of the batch.
\<close>

datatype fetched = Raises | Returns "DataFrame option"

text \<open>
  The \<^verbatim>\<open>for name, ticker in index_options.items()\<close> loop, with the list \<^verbatim>\<open>results\<close> passed
  along. Each \<^verbatim>\<open>continue\<close> goes on with the rest; an exception outside the two
  \<^verbatim>\<open>try\<close> blocks leaves the loop.
\<close>

fun get_dip_loop ::
  "(string \<Rightarrow> fetched) \<Rightarrow> (string \<times> string) list \<Rightarrow> entry list \<Rightarrow> exn + entry list" where
  "get_dip_loop download [] results = Inr results"
| "get_dip_loop download ((name, ticker) # rest) results =
     (case download ticker of
        Raises \<Rightarrow> get_dip_loop download rest results
      | Returns data \<Rightarrow>
          if data = None \<or> df_empty (the data) then get_dip_loop download rest results
          else
            (case get_last_close_and_dma data of
               Inl e \<Rightarrow> get_dip_loop download rest results
             | Inr (last_close, last_dma) \<Rightarrow>
                 (case classify name ticker last_close last_dma of
                    Inl e \<Rightarrow> Inl e
                  | Inr r \<Rightarrow> get_dip_loop download rest (results @ [r]))))"

definition no_results :: string where
  "no_results = ''No results available. Data may be missing or API limits reached.''"

definition get_dip :: "(string \<Rightarrow> fetched) \<Rightarrow> exn + entry list" where
  "get_dip download =
     (case get_dip_loop download index_options [] of
        Inl e \<Rightarrow> Inl e
      | Inr results \<Rightarrow>
          if results = [] then Inl (HTTPException 404 no_results) else Inr results)"

section \<open>Sample data\<close>

text \<open>A flat table: one \<^verbatim>\<open>Close\<close> column over the given cells.\<close>

definition flat_frame :: "cell list \<Rightarrow> DataFrame" where
  "flat_frame cs = \<lparr> nrows = length cs, columns = [(''Close'', cs)] \<rparr>"

text \<open>
  The point the loop body extracts for a ticker, \<open>None\<close> when one of its three
  \<^verbatim>\<open>continue\<close> statements skips the instrument: the fetch raised, it returned
  \<^verbatim>\<open>None\<close> or an empty table, or the extraction raised.
\<close>

definition extracted :: "(string \<Rightarrow> fetched) \<Rightarrow> string \<Rightarrow> (real \<times> real) option" where
  "extracted download ticker =
     (case download ticker of
        Raises \<Rightarrow> None
      | Returns data \<Rightarrow>
          if data = None \<or> df_empty (the data) then None
          else (case get_last_close_and_dma data of Inl e \<Rightarrow> None | Inr p \<Rightarrow> Some p))"

text \<open>
  A provider whose first fetch raises and whose second returns nothing; the other four
  instruments get 200 closes of 7.
\<close>

definition sample_download :: "string \<Rightarrow> fetched" where
  "sample_download ticker =
     (if ticker = ''^GSPC'' then Raises
      else if ticker = ''^NSEI'' then Returns None
      else Returns (Some (flat_frame (replicate 200 (Some 7)))))"

text \<open>A provider that returns 200 closes of 0 for every instrument.\<close>

definition zero_download :: "string \<Rightarrow> fetched" where
  "zero_download ticker = Returns (Some (flat_frame (replicate 200 (Some 0))))"

text \<open>
  A provider whose first fetch raises, whose second returns 200 closes of 0, and whose
  other four return 200 closes of 7.
\<close>

definition mixed_download :: "string \<Rightarrow> fetched" where
  "mixed_download ticker =
     (if ticker = ''^GSPC'' then Raises
      else if ticker = ''^NSEI'' then Returns (Some (flat_frame (replicate 200 (Some 0))))
      else Returns (Some (flat_frame (replicate 200 (Some 7)))))"

text \<open>The entry of an instrument whose close equals its moving average.\<close>

definition hold_entry :: "string \<Rightarrow> string \<Rightarrow> real \<Rightarrow> entry" where
  "hold_entry name ticker x =
     \<lparr> Index = name, Ticker = ticker, Current_Price = x, DMA_200 = x, Dip_pct = 0,
       Action = action_hold, Deploy = 0 \<rparr>"

section \<open>The classifier\<close>

lemma actions_distinct:
  "action_100 \<noteq> action_50" "action_100 \<noteq> action_25" "action_100 \<noteq> action_hold"
  "action_50 \<noteq> action_25" "action_50 \<noteq> action_hold" "action_25 \<noteq> action_hold"
  by (simp_all add: action_100_def action_50_def action_25_def action_hold_def)

lemma round_half_even_int: "round_half_even (of_int k) = k"
  by (simp add: round_half_even_def)

lemma py_round_2_int: "py_round (of_int k) 2 = of_int k"
proof -
  have "(of_int k :: real) * 10 ^ 2 = of_int (k * 100)" by simp
  then have "round_half_even (of_int k * 10 ^ 2) = k * 100"
    using round_half_even_int by metis
  then show ?thesis by (simp add: py_round_def)
qed

lemma py_round_2_numeral [simp]: "py_round (numeral n) 2 = numeral n"
  using py_round_2_int [of "numeral n"] by simp

lemma py_round_2_zero [simp]: "py_round 0 2 = 0"
  using py_round_2_int [of 0] by simp

lemma py_round_2_one [simp]: "py_round 1 2 = 1"
  using py_round_2_int [of 1] by simp

lemma round_half_even_close: "\<bar>of_int (round_half_even y) - y\<bar> \<le> 1 / 2"
  unfolding round_half_even_def Let_def by (auto simp: abs_le_iff)

lemma py_round_2_close: "\<bar>py_round x 2 - x\<bar> \<le> 1 / 200"
proof -
  have "\<bar>of_int (round_half_even (x * 100)) - x * 100\<bar> \<le> 1 / 2"
    by (rule round_half_even_close)
  then show ?thesis by (simp add: py_round_def abs_le_iff field_simps)
qed

lemma py_round_2_grid: "\<exists>k::int. py_round x 2 = of_int k / 100"
  by (auto simp: py_round_def)

text \<open>
  C3. The tiers form a descending ladder with closed lower ends: the 100 percent tier is
  chosen exactly from 10 upwards, the 50 percent tier exactly on [7, 10), the 25 percent
  tier exactly on [4, 7), and hold below 4. A dip of 12 takes the first tier although it
  also passes the two lower thresholds; a dip of exactly 10 takes the first tier, and a dip
  of 9.999 the second.
\<close>

theorem tier_ladder:
  "(select_tier dip = (action_100, 100) \<longleftrightarrow> 10 \<le> dip) \<and>
   (select_tier dip = (action_50, 50) \<longleftrightarrow> 7 \<le> dip \<and> dip < 10) \<and>
   (select_tier dip = (action_25, 25) \<longleftrightarrow> 4 \<le> dip \<and> dip < 7) \<and>
   (select_tier dip = (action_hold, 0) \<longleftrightarrow> dip < 4) \<and>
   select_tier 12 = (action_100, 100) \<and>
   select_tier 10 = (action_100, 100) \<and>
   select_tier 9.999 = (action_50, 50)"
  by (simp add: select_tier_def dip_100_def dip_50_def dip_25_def amount_def actions_distinct)

text \<open>
  C7. The dip percentage is (last_dma - last_close) / last_dma * 100 (the division raises
  when last_dma is zero). A close of 90 under an average of 100 gives a dip of 10.0, the
  label "Deploy 100%" behind its green circle, and 100.0 to deploy; a close of 99 gives a
  dip of 1.0, the label "Hold" behind its white circle, and 0 to deploy.
\<close>

theorem dip_vectors:
  "dip_percent c m = (if m = 0 then Inl ZeroDivisionError else Inr ((m - c) / m * 100)) \<and>
   classify name ticker 90 100 =
     Inr \<lparr> Index = name, Ticker = ticker, Current_Price = 90, DMA_200 = 100,
           Dip_pct = 10.0, Action = action_100, Deploy = 100.0 \<rparr> \<and>
   classify name ticker 99 100 =
     Inr \<lparr> Index = name, Ticker = ticker, Current_Price = 99, DMA_200 = 100,
           Dip_pct = 1.0, Action = action_hold, Deploy = 0.0 \<rparr> \<and>
   action_100 = [CHR 0xF0, CHR 0x9F, CHR 0x9F, CHR 0xA2] @ '' Deploy 100%'' \<and>
   action_hold = [CHR 0xE2, CHR 0x9A, CHR 0xAA] @ '' Hold''"
  by (simp add: classify_def dip_percent_def truediv_def select_tier_def
      dip_100_def dip_50_def dip_25_def amount_def action_100_def action_hold_def)

section \<open>Last matching element, first number, rolling means\<close>

text \<open>
  The last element of a filtered list and the first number of a row, by position; then the
  cells of a rolling mean in terms of the cells of the column.
\<close>


lemma last_filter_nth:
  assumes "i < length xs" and "P (xs ! i)"
    and "\<And>k. i < k \<Longrightarrow> k < length xs \<Longrightarrow> \<not> P (xs ! k)"
  shows "filter P xs \<noteq> [] \<and> last (filter P xs) = xs ! i"
proof -
  have split: "xs = take i xs @ xs ! i # drop (Suc i) xs"
    using assms(1) by (simp add: id_take_nth_drop)
  have "filter P (drop (Suc i) xs) = []"
    using assms(3) by (auto simp: filter_empty_conv in_set_conv_nth)
  then have "filter P xs = filter P (take i xs) @ [xs ! i]"
    using assms(2) by (subst split) simp
  then show ?thesis by simp
qed

lemma filter_last_ex:
  "filter P xs \<noteq> [] \<Longrightarrow>
   \<exists>i<length xs. P (xs ! i) \<and> last (filter P xs) = xs ! i \<and>
     (\<forall>k. i < k \<and> k < length xs \<longrightarrow> \<not> P (xs ! k))"
proof (induction xs rule: rev_induct)
  case Nil
  then show ?case by simp
next
  case (snoc x xs)
  show ?case
  proof (cases "P x")
    case True
    then have "P ((xs @ [x]) ! length xs) \<and> last (filter P (xs @ [x])) = (xs @ [x]) ! length xs"
      by simp
    then show ?thesis by (intro exI [of _ "length xs"]) auto
  next
    case False
    with snoc obtain i where i: "i < length xs" "P (xs ! i)" "last (filter P xs) = xs ! i"
      "\<forall>k. i < k \<and> k < length xs \<longrightarrow> \<not> P (xs ! k)"
      by auto
    have "\<forall>k. i < k \<and> k < length (xs @ [x]) \<longrightarrow> \<not> P ((xs @ [x]) ! k)"
      using i(4) False by (auto simp: nth_append less_Suc_eq)
    then show ?thesis
      using i False by (intro exI [of _ i]) (auto simp: nth_append)
  qed
qed

lemma first_notna_None_iff: "first_notna r = None \<longleftrightarrow> \<not> list_ex notna r"
  by (induction r) (auto simp: notna_def split: option.splits)

lemma first_notna_Some_iff:
  "first_notna r = Some x \<longleftrightarrow> (\<exists>j<length r. r ! j = Some x \<and> (\<forall>k<j. r ! k = None))"
proof (induction r)
  case Nil
  then show ?case by simp
next
  case (Cons v vs)
  show ?case
  proof (cases v)
    case None
    have "(\<exists>j<length (v # vs). (v # vs) ! j = Some x \<and> (\<forall>k<j. (v # vs) ! k = None)) \<longleftrightarrow>
          (\<exists>j<length vs. vs ! j = Some x \<and> (\<forall>k<j. vs ! k = None))" (is "?L \<longleftrightarrow> ?R")
    proof
      assume ?L
      then obtain j where j: "j < length (v # vs)" "(v # vs) ! j = Some x"
        "\<forall>k<j. (v # vs) ! k = None" by blast
      with None obtain j' where j': "j = Suc j'" by (cases j) auto
      have "\<forall>k<j'. vs ! k = None"
      proof (intro allI impI)
        fix k assume "k < j'"
        then have "Suc k < j" using j' by simp
        with j(3) have "(v # vs) ! Suc k = None" by blast
        then show "vs ! k = None" by simp
      qed
      with j j' show ?R by (intro exI [of _ j']) auto
    next
      assume ?R
      then obtain j where j: "j < length vs" "vs ! j = Some x" "\<forall>k<j. vs ! k = None" by blast
      have "\<forall>k<Suc j. (v # vs) ! k = None"
        using j(3) None by (auto simp: nth_Cons split: nat.splits)
      with j show ?L by (intro exI [of _ "Suc j"]) auto
    qed
    with None Cons show ?thesis by simp
  next
    case (Some y)
    have "(\<exists>j<length (v # vs). (v # vs) ! j = Some x \<and> (\<forall>k<j. (v # vs) ! k = None)) \<longleftrightarrow> y = x"
    proof
      assume "\<exists>j<length (v # vs). (v # vs) ! j = Some x \<and> (\<forall>k<j. (v # vs) ! k = None)"
      then obtain j where j: "(v # vs) ! j = Some x" "\<forall>k<j. (v # vs) ! k = None" by blast
      show "y = x"
      proof (cases j)
        case 0
        with j Some show ?thesis by simp
      next
        case (Suc n)
        with j(2) have "(v # vs) ! 0 = None" by blast
        with Some show ?thesis by simp
      qed
    next
      assume "y = x"
      with Some show "\<exists>j<length (v # vs). (v # vs) ! j = Some x \<and> (\<forall>k<j. (v # vs) ! k = None)"
        by (intro exI [of _ 0]) simp
    qed
    with Some show ?thesis by simp
  qed
qed

lemma length_rolling_mean [simp]: "length (rolling_mean w col) = length col"
  by (simp add: rolling_mean_def)

lemma rolling_mean_nth:
  "i < length col \<Longrightarrow>
   rolling_mean w col ! i = window_mean w (drop (Suc i - w) (take (Suc i) col))"
  by (simp add: rolling_mean_def)

lemma window_nth:
  assumes "i < length col" and "k < w" and "k \<le> i"
  shows "drop (Suc i - w) (take (Suc i) col) ! (min w (Suc i) - 1 - k) = col ! (i - k)"
  using assms by (simp add: min_def) (auto simp: algebra_simps intro: arg_cong [of _ _ "(!) col"])


lemma length_window:
  "i < length col \<Longrightarrow> length (drop (Suc i - w) (take (Suc i) col)) = min w (Suc i)"
  by (auto simp: min_def)

lemma rolling_mean_nth_short:
  "i < length col \<Longrightarrow> Suc i < w \<Longrightarrow> rolling_mean w col ! i = None"
  by (simp add: rolling_mean_nth window_mean_def)

lemma rolling_mean_nth_None:
  assumes "i < length col" and "k < w" and "k \<le> i" and "col ! (i - k) = None"
  shows "rolling_mean w col ! i = None"
proof -
  let ?ws = "drop (Suc i - w) (take (Suc i) col)"
  have "min w (Suc i) - 1 - k < length ?ws"
    using assms(1,2,3) by (auto simp: length_window min_def)
  moreover have "?ws ! (min w (Suc i) - 1 - k) = None"
    using window_nth [OF assms(1,2,3)] assms(4) by simp
  ultimately have "None \<in> set ?ws"
    by (metis nth_mem)
  then have "\<not> list_all notna ?ws"
    by (auto simp: list_all_iff notna_def)
  then show ?thesis
    using assms(1) by (simp add: rolling_mean_nth window_mean_def)
qed

lemma window_sum:
  assumes "i < length col" and "w \<le> Suc i"
  shows "sum_list (map the (drop (Suc i - w) (take (Suc i) col))) = (\<Sum>k<w. the (col ! (i - k)))"
proof -
  let ?ws = "drop (Suc i - w) (take (Suc i) col)"
  have len: "length ?ws = w"
    using assms by (auto simp: length_window min_def)
  have "sum_list (map the ?ws) = (\<Sum>m<w. the (?ws ! m))"
    using len by (simp add: sum_list_sum_nth atLeast0LessThan)
  also have "\<dots> = (\<Sum>m<w. the (col ! (Suc i - w + m)))"
    using assms by (intro sum.cong) auto
  also have "\<dots> = (\<Sum>k<w. the (col ! (Suc i - w + (w - Suc k))))"
    by (rule sum.nat_diff_reindex [symmetric])
  also have "\<dots> = (\<Sum>k<w. the (col ! (i - k)))"
    using assms by (intro sum.cong) (auto intro!: arg_cong [of _ _ "\<lambda>n. the (col ! n)"])
  finally show ?thesis .
qed

lemma rolling_mean_nth_Some:
  assumes "i < length col" and "w \<le> Suc i" and "\<And>k. k < w \<Longrightarrow> col ! (i - k) \<noteq> None"
  shows "rolling_mean w col ! i = Some ((\<Sum>k<w. the (col ! (i - k))) / real w)"
proof -
  let ?ws = "drop (Suc i - w) (take (Suc i) col)"
  have len: "length ?ws = w"
    using assms by (auto simp: length_window min_def)
  have "list_all notna ?ws"
    unfolding list_all_length
  proof (intro allI impI)
    fix m assume m: "m < length ?ws"
    then have mw: "m < w" using len by simp
    have "?ws ! m = col ! (i - (w - Suc m))"
      using assms mw by (auto intro!: arg_cong [of _ _ "(!) col"])
    moreover have "w - Suc m < w" using mw by simp
    ultimately show "notna (?ws ! m)"
      using assms(3) by (simp add: notna_def)
  qed
  then show ?thesis
    using assms(1) len window_sum [OF assms(1,2)]
    by (simp add: rolling_mean_nth window_mean_def)
qed

lemma length_filter_take_le: "length (filter P (take n xs)) \<le> length (filter P xs)"
proof -
  have "length (filter P xs) = length (filter P (take n xs)) + length (filter P (drop n xs))"
    by (metis append_take_drop_id filter_append length_append)
  then show ?thesis by simp
qed

lemma length_filter_drop_le: "length (filter P (drop n xs)) \<le> length (filter P xs)"
proof -
  have "length (filter P xs) = length (filter P (take n xs)) + length (filter P (drop n xs))"
    by (metis append_take_drop_id filter_append length_append)
  then show ?thesis by simp
qed

lemma rolling_mean_Some_count:
  assumes "i < length col" and "rolling_mean w col ! i = Some x"
  shows "w \<le> length (filter notna col)"
proof -
  let ?ws = "drop (Suc i - w) (take (Suc i) col)"
  from assms have ws: "length ?ws = w" "list_all notna ?ws"
    by (auto simp: rolling_mean_nth window_mean_def split: if_splits)
  then have "filter notna ?ws = ?ws"
    by (simp add: list_all_iff)
  then have "w = length (filter notna ?ws)"
    using ws(1) by simp
  also have "\<dots> \<le> length (filter notna (take (Suc i) col))"
    by (rule length_filter_drop_le)
  also have "\<dots> \<le> length (filter notna col)"
    by (rule length_filter_take_le)
  finally show ?thesis .
qed

section \<open>Extraction at a known position\<close>


lemma length_rows_of [simp]: "length (rows_of n cols) = n"
  by (simp add: rows_of_def)

lemma rows_of_nth: "i < n \<Longrightarrow> rows_of n cols ! i = map (\<lambda>c. c ! i) cols"
  by (simp add: rows_of_def)

lemma close_column_length:
  "rectangular df \<Longrightarrow> close_column df = Some cols \<Longrightarrow> col \<in> set cols \<Longrightarrow>
   length col = nrows df"
  by (auto simp: rectangular_def close_column_def list_all_iff split: if_splits)

lemma close_column_nonempty:
  "close_column df = Some cols \<Longrightarrow> columns df \<noteq> []"
  by (auto simp: close_column_def split: if_splits)

lemma last_row_at:
  assumes "i < n" and "j < length cols" and "cols ! j ! i \<noteq> None"
    and "\<And>i' j'. i < i' \<Longrightarrow> i' < n \<Longrightarrow> j' < length cols \<Longrightarrow> cols ! j' ! i' = None"
  shows "dropna_all (rows_of n cols) \<noteq> [] \<and>
         last (dropna_all (rows_of n cols)) = map (\<lambda>c. c ! i) cols"
proof -
  have "list_ex notna (rows_of n cols ! i)"
    using assms(1,2,3) by (auto simp: rows_of_nth list_ex_iff notna_def)
  moreover have "\<not> list_ex notna (rows_of n cols ! k)" if "i < k" "k < length (rows_of n cols)" for k
    using that assms(4) by (auto simp: rows_of_nth list_ex_iff notna_def in_set_conv_nth)
  ultimately show ?thesis
    using last_filter_nth [of i "rows_of n cols" "list_ex notna"] assms(1)
    by (simp add: dropna_all_def rows_of_nth)
qed

lemma first_notna_at:
  assumes "j < length cols" and "f (cols ! j) = Some x" and "\<And>k. k < j \<Longrightarrow> f (cols ! k) = None"
  shows "first_notna (map f cols) = Some x"
  unfolding first_notna_Some_iff using assms by (intro exI [of _ j]) simp

lemma extract_at_position:
  assumes rect: "rectangular df" and close: "close_column df = Some cols"
    and i: "i < nrows df" and j: "j < length cols"
    and c: "cols ! j ! i = Some c"
    and before: "\<And>k. k < j \<Longrightarrow> cols ! k ! i = None"
    and after: "\<And>i' j'. i < i' \<Longrightarrow> i' < nrows df \<Longrightarrow> j' < length cols \<Longrightarrow> cols ! j' ! i' = None"
    and full: "window \<le> Suc i"
    and run: "\<And>k. k < window \<Longrightarrow> cols ! j ! (i - k) \<noteq> None"
  shows "get_last_close_and_dma (Some df) =
         Inr (c, (\<Sum>k<window. the (cols ! j ! (i - k))) / real window)"
proof -
  let ?n = "nrows df"
  let ?dma = "map (rolling_mean window) cols"
  let ?d = "(\<Sum>k<window. the (cols ! j ! (i - k))) / real window"
  have len: "length (cols ! k) = ?n" if "k < length cols" for k
    using close_column_length [OF rect close] that by simp
  have wpos: "0 < window" by (simp add: window_def)
  have nonempty: "\<not> df_empty df"
    using i close_column_nonempty [OF close] by (simp add: df_empty_def)
  have crow: "dropna_all (rows_of ?n cols) \<noteq> [] \<and>
              last (dropna_all (rows_of ?n cols)) = map (\<lambda>c. c ! i) cols"
    using last_row_at [OF i j _ after] c by simp
  have lc: "first_notna (map (\<lambda>c. c ! i) cols) = Some c"
    using first_notna_at [of j cols "\<lambda>c. c ! i" c] j c before by simp
  have dj: "?dma ! j ! i = Some ?d"
    using rolling_mean_nth_Some [of i "cols ! j" window] len [OF j] i j full run by simp
  have dbefore: "rolling_mean window (cols ! k) ! i = None" if "k < j" for k
    using rolling_mean_nth_None [of i "cols ! k" 0 window] that j i before len wpos by simp
  have dafter: "?dma ! j' ! i' = None" if "i < i'" "i' < ?n" "j' < length ?dma" for i' j'
    using rolling_mean_nth_None [of i' "cols ! j'" 0 window] that after len wpos by simp
  have drow: "dropna_all (rows_of ?n ?dma) \<noteq> [] \<and>
              last (dropna_all (rows_of ?n ?dma)) = map (\<lambda>c. c ! i) ?dma"
    using last_row_at [of i ?n j ?dma] i j dj dafter by simp
  have ld: "first_notna (map (\<lambda>c. c ! i) ?dma) = Some ?d"
    using first_notna_at [of j cols "\<lambda>c. rolling_mean window c ! i" ?d] j dj dbefore
    by (simp add: comp_def)
  show ?thesis
    using nonempty close crow lc drow ld
    by (simp add: get_last_close_and_dma_def iloc_last_def Let_def)
qed

lemma extract_no_window:
  assumes rect: "rectangular df" and close: "close_column df = Some cols"
    and none: "\<And>col i. col \<in> set cols \<Longrightarrow> i < nrows df \<Longrightarrow> rolling_mean window col ! i = None"
  shows "get_last_close_and_dma (Some df) \<in>
         {Inl (ValueError ''no data''), Inl IndexError,
          Inl (ValueError ''insufficient data for 200DMA or last close'')}"
proof -
  let ?dma = "map (rolling_mean window) cols"
  have "\<not> list_ex notna r" if "r \<in> set (rows_of (nrows df) ?dma)" for r
    using that none by (auto simp: rows_of_def list_ex_iff notna_def)
  then have "dropna_all (rows_of (nrows df) ?dma) = []"
    by (auto simp: dropna_all_def filter_empty_conv)
  then show ?thesis
    using close
    by (auto simp: get_last_close_and_dma_def iloc_last_def Let_def split: option.splits)
qed

lemma extract_too_few:
  assumes rect: "rectangular df" and close: "close_column df = Some cols"
    and few: "\<And>col. col \<in> set cols \<Longrightarrow> length (filter notna col) < window"
  shows "get_last_close_and_dma (Some df) \<in>
         {Inl (ValueError ''no data''), Inl IndexError,
          Inl (ValueError ''insufficient data for 200DMA or last close'')}"
proof (rule extract_no_window [OF rect close])
  fix col i assume col: "col \<in> set cols" and i: "i < nrows df"
  have len: "length col = nrows df"
    using close_column_length [OF rect close col] .
  show "rolling_mean window col ! i = None"
  proof (cases "rolling_mean window col ! i")
    case None
    then show ?thesis .
  next
    case (Some x)
    then have "window \<le> length (filter notna col)"
      using rolling_mean_Some_count [of i col window x] i len by simp
    with few [OF col] show ?thesis by simp
  qed
qed

section \<open>The extractor\<close>


lemma last_row_ex:
  assumes "dropna_all (rows_of n cols) \<noteq> []"
    and "first_notna (last (dropna_all (rows_of n cols))) = Some x"
  shows "\<exists>i<n. \<exists>j<length cols. cols ! j ! i = Some x \<and> (\<forall>k<j. cols ! k ! i = None) \<and>
           (\<forall>i' j'. i < i' \<and> i' < n \<and> j' < length cols \<longrightarrow> cols ! j' ! i' = None)"
proof -
  from filter_last_ex [of "list_ex notna" "rows_of n cols"] assms(1)
  obtain i where i: "i < n" "last (dropna_all (rows_of n cols)) = rows_of n cols ! i"
    and later: "\<forall>k. i < k \<and> k < n \<longrightarrow> \<not> list_ex notna (rows_of n cols ! k)"
    by (auto simp: dropna_all_def)
  from assms(2) i have "first_notna (map (\<lambda>c. c ! i) cols) = Some x"
    by (simp add: rows_of_nth)
  then obtain j where j: "j < length cols" "cols ! j ! i = Some x" "\<forall>k<j. cols ! k ! i = None"
    by (auto simp: first_notna_Some_iff)
  have "cols ! j' ! i' = None" if "i < i'" "i' < n" "j' < length cols" for i' j'
  proof -
    from later that have "\<not> list_ex notna (map (\<lambda>c. c ! i') cols)"
      by (simp add: rows_of_nth)
    with that(3) show ?thesis
      by (auto simp: list_ex_iff notna_def)
  qed
  with i(1) j show ?thesis by blast
qed

lemma extract_flat_const:
  assumes "n \<ge> 200"
  shows "get_last_close_and_dma (Some (flat_frame (replicate n (Some x)))) = Inr (x, x)"
proof -
  let ?col = "replicate n (Some x)"
  have s: "(\<Sum>k<window. the (?col ! (n - 1 - k))) = (\<Sum>k<window. x)"
    using assms by (intro sum.cong) (auto simp: window_def)
  have "get_last_close_and_dma (Some (flat_frame ?col)) =
        Inr (x, (\<Sum>k<window. the ([?col] ! 0 ! (n - 1 - k))) / real window)"
    using assms
    by (intro extract_at_position [where i = "n - 1" and j = 0 and cols = "[?col]"])
       (auto simp: flat_frame_def rectangular_def close_column_def window_def)
  then show ?thesis
    using s by (simp add: window_def)
qed

text \<open>
  C1 (as amended). When the 200 rows ending at the position of the last close are all
  present, extraction succeeds and the moving average it returns is the arithmetic mean of
  those 200 closes. The position of the last close is row \<open>i\<close>, the last row holding any
  close, and column \<open>j\<close>, the first column with a number in that row.
\<close>

theorem extract_trailing_mean:
  assumes "rectangular df" and "close_column df = Some cols"
    and "i < nrows df" and "j < length cols"
    and "cols ! j ! i = Some c"
    and "\<forall>k<j. cols ! k ! i = None"
    and "\<forall>i' j'. i < i' \<and> i' < nrows df \<and> j' < length cols \<longrightarrow> cols ! j' ! i' = None"
    and "200 \<le> Suc i"
    and "\<forall>k<200. cols ! j ! (i - k) \<noteq> None"
  shows "get_last_close_and_dma (Some df) =
         Inr (c, (\<Sum>k<200. the (cols ! j ! (i - k))) / 200)"
  using extract_at_position [of df cols i j c] assms by (simp add: window_def)

theorem extract_trailing_mean_witness:
  "get_last_close_and_dma (Some (flat_frame (replicate 200 (Some 3) @ [None]))) = Inr (3, 3)"
proof -
  let ?col = "replicate 200 (Some (3::real)) @ [None]"
  have s: "(\<Sum>k<200. the ([?col] ! 0 ! (199 - k))) = (\<Sum>k<(200::nat). (3::real))"
    by (intro sum.cong) (auto simp: nth_append)
  have "get_last_close_and_dma (Some (flat_frame ?col)) =
        Inr (3, (\<Sum>k<200. the ([?col] ! 0 ! (199 - k))) / 200)"
    by (rule extract_trailing_mean [where i = 199 and j = 0 and cols = "[?col]"])
       (auto simp: flat_frame_def rectangular_def close_column_def nth_append less_Suc_eq)
  then show ?thesis
    using s by simp
qed

text \<open>
  C9. Whenever extraction returns, the last close is a number held by the close table: it
  stands in the last row with any number, in the first column holding a number in that
  row. The moving average returned is drawn from the table of rolling means by the same
  rule.
\<close>

theorem extract_values_drawn:
  assumes "get_last_close_and_dma data = Inr (c, d)"
  shows "\<exists>df cols. data = Some df \<and> close_column df = Some cols \<and>
     (\<exists>i<nrows df. \<exists>j<length cols.
        cols ! j ! i = Some c \<and> (\<forall>k<j. cols ! k ! i = None) \<and>
        (\<forall>i' j'. i < i' \<and> i' < nrows df \<and> j' < length cols \<longrightarrow> cols ! j' ! i' = None)) \<and>
     (\<exists>i<nrows df. \<exists>j<length cols.
        rolling_mean window (cols ! j) ! i = Some d \<and>
        (\<forall>k<j. rolling_mean window (cols ! k) ! i = None) \<and>
        (\<forall>i' j'. i < i' \<and> i' < nrows df \<and> j' < length cols \<longrightarrow>
           rolling_mean window (cols ! j') ! i' = None))"
proof -
  from assms obtain df cols where df: "data = Some df" "close_column df = Some cols"
    by (auto simp: get_last_close_and_dma_def split: option.splits if_splits)
  let ?n = "nrows df"
  let ?dma = "map (rolling_mean window) cols"
  from assms df have
    crow: "dropna_all (rows_of ?n cols) \<noteq> []"
      "first_notna (last (dropna_all (rows_of ?n cols))) = Some c" and
    drow: "dropna_all (rows_of ?n ?dma) \<noteq> []"
      "first_notna (last (dropna_all (rows_of ?n ?dma))) = Some d"
    by (auto simp: get_last_close_and_dma_def iloc_last_def Let_def
        split: option.splits if_splits)
  from last_row_ex [OF crow] have C:
    "\<exists>i<?n. \<exists>j<length cols.
        cols ! j ! i = Some c \<and> (\<forall>k<j. cols ! k ! i = None) \<and>
        (\<forall>i' j'. i < i' \<and> i' < ?n \<and> j' < length cols \<longrightarrow> cols ! j' ! i' = None)" .
  from last_row_ex [OF drow] obtain i j where ij: "i < ?n" "j < length cols"
    "?dma ! j ! i = Some d" "\<forall>k<j. ?dma ! k ! i = None"
    "\<forall>i' j'. i < i' \<and> i' < ?n \<and> j' < length ?dma \<longrightarrow> ?dma ! j' ! i' = None"
    by auto
  have D: "\<exists>i<?n. \<exists>j<length cols.
        rolling_mean window (cols ! j) ! i = Some d \<and>
        (\<forall>k<j. rolling_mean window (cols ! k) ! i = None) \<and>
        (\<forall>i' j'. i < i' \<and> i' < ?n \<and> j' < length cols \<longrightarrow>
           rolling_mean window (cols ! j') ! i' = None)"
    using ij by (intro exI [of _ i] exI [of _ j]) auto
  from df C D show ?thesis by blast
qed

theorem extract_values_drawn_witness:
  "get_last_close_and_dma (Some (flat_frame (replicate 200 (Some 7)))) = Inr (7, 7) \<and>
   (\<exists>df cols. Some (flat_frame (replicate 200 (Some 7))) = Some df \<and> close_column df = Some cols \<and>
     (\<exists>i<nrows df. \<exists>j<length cols.
        cols ! j ! i = Some 7 \<and> (\<forall>k<j. cols ! k ! i = None) \<and>
        (\<forall>i' j'. i < i' \<and> i' < nrows df \<and> j' < length cols \<longrightarrow> cols ! j' ! i' = None)) \<and>
     (\<exists>i<nrows df. \<exists>j<length cols.
        rolling_mean window (cols ! j) ! i = Some 7 \<and>
        (\<forall>k<j. rolling_mean window (cols ! k) ! i = None) \<and>
        (\<forall>i' j'. i < i' \<and> i' < nrows df \<and> j' < length cols \<longrightarrow>
           rolling_mean window (cols ! j') ! i' = None)))"
proof -
  have h: "get_last_close_and_dma (Some (flat_frame (replicate 200 (Some 7)))) = Inr (7, 7)"
    by (rule extract_flat_const) simp
  show ?thesis
    using h extract_values_drawn [OF h] by blast
qed

text \<open>
  C1 as stated fails. A flat series of 201 rows with 200 closes around one missing row has
  no window of 200 present rows, so extraction raises although 200 closes are present.
  And in a series of 200 closes of 1, a missing row and a close of 5, the returned average
  is 1, the mean over a window that ends two rows before the last close, while the last
  200 present closes ending at the last close have mean 51/50.
\<close>

theorem extract_gap_counterexample:
  "length (filter notna (replicate 100 (Some 1) @ [None] @ replicate 100 (Some 1))) = 200 \<and>
   get_last_close_and_dma
     (Some (flat_frame (replicate 100 (Some 1) @ [None] @ replicate 100 (Some 1)))) =
   Inl (ValueError ''insufficient data for 200DMA or last close'') \<and>
   get_last_close_and_dma
     (Some (flat_frame (replicate 200 (Some 1) @ [None, Some 5]))) = Inr (5, 1) \<and>
   sum_list (map the (take 200 (rev (filter notna (replicate 200 (Some 1) @ [None, Some 5])))))
     / 200 = (51 / 50 :: real)"
  by code_simp

text \<open>
  C2. Extraction raises on \<^verbatim>\<open>None\<close>, on an empty table, on a table without a
  \<^verbatim>\<open>Close\<close> column, and on every table whose \<^verbatim>\<open>Close\<close> columns each hold fewer than 200 numbers;
  it never returns a pair there. The exceptions are ValueError and, when no close is
  present at all, IndexError.
\<close>

theorem extract_fails:
  "get_last_close_and_dma None = Inl (ValueError ''no data'') \<and>
   (df_empty df \<longrightarrow> get_last_close_and_dma (Some df) = Inl (ValueError ''no data'')) \<and>
   (\<not> df_empty df \<and> close_column df = None \<longrightarrow>
      get_last_close_and_dma (Some df) = Inl (ValueError ''no Close column'')) \<and>
   (rectangular df \<and> close_column df = Some cols \<and>
    (\<forall>col\<in>set cols. length (filter notna col) < 200) \<longrightarrow>
      get_last_close_and_dma (Some df) \<in>
        {Inl (ValueError ''no data''), Inl IndexError,
         Inl (ValueError ''insufficient data for 200DMA or last close'')})"
proof (intro conjI impI)
  show "get_last_close_and_dma None = Inl (ValueError ''no data'')"
    by (simp add: get_last_close_and_dma_def)
  show "get_last_close_and_dma (Some df) = Inl (ValueError ''no data'')" if "df_empty df"
    using that by (simp add: get_last_close_and_dma_def)
  show "get_last_close_and_dma (Some df) = Inl (ValueError ''no Close column'')"
    if "\<not> df_empty df \<and> close_column df = None"
    using that by (simp add: get_last_close_and_dma_def)
  show "get_last_close_and_dma (Some df) \<in>
        {Inl (ValueError ''no data''), Inl IndexError,
         Inl (ValueError ''insufficient data for 200DMA or last close'')}"
    if "rectangular df \<and> close_column df = Some cols \<and>
        (\<forall>col\<in>set cols. length (filter notna col) < 200)"
    using that extract_too_few [of df cols] by (simp add: window_def)
qed

theorem extract_fails_witness:
  "get_last_close_and_dma (Some \<lparr> nrows = 0, columns = [] \<rparr>) = Inl (ValueError ''no data'') \<and>
   get_last_close_and_dma (Some \<lparr> nrows = 1, columns = [(''Open'', [Some 1])] \<rparr>) =
     Inl (ValueError ''no Close column'') \<and>
   length (filter notna (replicate 199 (Some 1))) < 200 \<and>
   get_last_close_and_dma (Some (flat_frame (replicate 199 (Some 1)))) \<in>
     {Inl (ValueError ''no data''), Inl IndexError,
      Inl (ValueError ''insufficient data for 200DMA or last close'')}"
proof -
  have a: "df_empty \<lparr> nrows = 0, columns = [] \<rparr>"
    by (simp add: df_empty_def)
  have b: "\<not> df_empty \<lparr> nrows = 1, columns = [(''Open'', [Some 1])] \<rparr> \<and>
           close_column \<lparr> nrows = 1, columns = [(''Open'', [Some 1])] \<rparr> = None"
    by (simp add: df_empty_def close_column_def)
  have n: "length (filter notna (replicate 199 (Some 1))) < 200"
    by (simp add: notna_def)
  have c: "rectangular (flat_frame (replicate 199 (Some 1))) \<and>
           close_column (flat_frame (replicate 199 (Some 1))) = Some [replicate 199 (Some 1)] \<and>
           (\<forall>col\<in>set [replicate 199 (Some 1)]. length (filter notna col) < 200)"
    using n by (simp add: rectangular_def flat_frame_def close_column_def)
  show ?thesis
    using a b c n
      extract_fails [of "\<lparr> nrows = 0, columns = [] \<rparr>" "[]"]
      extract_fails [of "\<lparr> nrows = 1, columns = [(''Open'', [Some 1])] \<rparr>" "[]"]
      extract_fails [of "flat_frame (replicate 199 (Some 1))" "[replicate 199 (Some 1)]"]
    by blast
qed

section \<open>Monotonicity and rounding\<close>

text \<open>
  C6 as stated fails for a negative moving average: with an average of -100, lowering the
  close from -90 to -110 lowers the dip from 10 to -10 and the fraction from 1 to 0.
\<close>

theorem classifier_monotone_counterexample:
  "(-110 :: real) < -90 \<and>
   dip_percent (-90) (-100) = Inr 10 \<and> dip_percent (-110) (-100) = Inr (-10) \<and>
   snd (select_tier 10) / amount = 1 \<and> snd (select_tier (-10)) / amount = 0"
  by (simp add: dip_percent_def truediv_def select_tier_def dip_100_def dip_50_def dip_25_def
      amount_def)

lemma select_tier_mono: "d1 \<le> d2 \<Longrightarrow> snd (select_tier d1) \<le> snd (select_tier d2)"
  by (simp add: select_tier_def dip_100_def dip_50_def dip_25_def amount_def)

text \<open>
  C6 (as amended). For a fixed positive moving average, lowering the last close never
  lowers the dip percentage nor the fraction of the amount deployed.
\<close>

theorem classifier_monotone:
  assumes "0 < m" and "c2 \<le> c1"
  shows "\<exists>d1 d2. dip_percent c1 m = Inr d1 \<and> dip_percent c2 m = Inr d2 \<and> d1 \<le> d2 \<and>
           snd (select_tier d1) / amount \<le> snd (select_tier d2) / amount"
proof -
  let ?d1 = "(m - c1) / m * 100" and ?d2 = "(m - c2) / m * 100"
  have "(m - c1) / m \<le> (m - c2) / m"
    using assms by (simp add: divide_right_mono)
  then have le: "?d1 \<le> ?d2" by (rule mult_right_mono) simp
  have "snd (select_tier ?d1) / amount \<le> snd (select_tier ?d2) / amount"
    using select_tier_mono [OF le] by (simp add: amount_def divide_right_mono)
  moreover have "dip_percent c1 m = Inr ?d1" "dip_percent c2 m = Inr ?d2"
    using assms(1) by (simp_all add: dip_percent_def truediv_def)
  ultimately show ?thesis using le by blast
qed

theorem classifier_monotone_witness:
  "(0::real) < 100 \<and> (90::real) \<le> 95 \<and>
   (\<exists>d1 d2. dip_percent 95 100 = Inr d1 \<and> dip_percent 90 100 = Inr d2 \<and> d1 \<le> d2 \<and>
           snd (select_tier d1) / amount \<le> snd (select_tier d2) / amount)"
  using classifier_monotone [of 100 90 95] by simp

text \<open>
  C8. In every emitted entry the four numeric fields are the two-decimal roundings of the
  last close, the moving average, the dip and the deploy amount: each is a multiple of 1/100
  and the first three lie within 1/200 of the unrounded value. The action is chosen by the
  ladder on the unrounded dip.
\<close>

theorem outputs_rounded:
  assumes "classify name ticker c m = Inr r"
  shows "Current_Price r = py_round c 2 \<and> \<bar>Current_Price r - c\<bar> \<le> 1 / 200 \<and>
         DMA_200 r = py_round m 2 \<and> \<bar>DMA_200 r - m\<bar> \<le> 1 / 200 \<and>
         Dip_pct r = py_round ((m - c) / m * 100) 2 \<and>
         \<bar>Dip_pct r - (m - c) / m * 100\<bar> \<le> 1 / 200 \<and>
         Deploy r = py_round (snd (select_tier ((m - c) / m * 100))) 2 \<and>
         Action r = fst (select_tier ((m - c) / m * 100)) \<and>
         (\<exists>k1 k2 k3 k4 :: int. Current_Price r = of_int k1 / 100 \<and> DMA_200 r = of_int k2 / 100 \<and>
            Dip_pct r = of_int k3 / 100 \<and> Deploy r = of_int k4 / 100)"
proof -
  from assms have m: "m \<noteq> 0"
    by (auto simp: classify_def dip_percent_def truediv_def split: if_splits)
  from assms m have r: "Current_Price r = py_round c 2" "DMA_200 r = py_round m 2"
    "Dip_pct r = py_round ((m - c) / m * 100) 2"
    "Deploy r = py_round (snd (select_tier ((m - c) / m * 100))) 2"
    "Action r = fst (select_tier ((m - c) / m * 100))"
    by (auto simp: classify_def dip_percent_def truediv_def split: prod.splits)
  obtain k1 k2 k3 k4 :: int where k:
    "py_round c 2 = of_int k1 / 100" "py_round m 2 = of_int k2 / 100"
    "py_round ((m - c) / m * 100) 2 = of_int k3 / 100"
    "py_round (snd (select_tier ((m - c) / m * 100))) 2 = of_int k4 / 100"
    using py_round_2_grid by metis
  have "\<exists>k1 k2 k3 k4 :: int. Current_Price r = of_int k1 / 100 \<and> DMA_200 r = of_int k2 / 100 \<and>
            Dip_pct r = of_int k3 / 100 \<and> Deploy r = of_int k4 / 100"
    unfolding r using k by blast
  then show ?thesis
    using r py_round_2_close by simp
qed

text \<open>
  A close of 90.001 under an average of 100 has the dip 9.999: the entry shows it rounded to
  10, yet the action is the 50 percent tier, which the unrounded dip selects.
\<close>

theorem outputs_rounded_witness:
  "classify ''BTC'' ''BTC-USD'' 90.001 100 =
     Inr \<lparr> Index = ''BTC'', Ticker = ''BTC-USD'', Current_Price = 90, DMA_200 = 100,
           Dip_pct = 10, Action = action_50, Deploy = 50 \<rparr> \<and>
   (100 - 90.001) / 100 * 100 = (9.999 :: real) \<and>
   py_round 9.999 2 = 10 \<and> fst (select_tier 9.999) = action_50 \<and>
   fst (select_tier 10) = action_100"
proof -
  have r1: "py_round 90.001 2 = 90" "py_round 9.999 2 = 10"
    by (simp_all add: py_round_def round_half_even_def)
  have h: "classify ''BTC'' ''BTC-USD'' 90.001 100 =
     Inr \<lparr> Index = ''BTC'', Ticker = ''BTC-USD'', Current_Price = 90, DMA_200 = 100,
           Dip_pct = 10, Action = action_50, Deploy = 50 \<rparr>"
    using r1
    by (simp add: classify_def dip_percent_def truediv_def select_tier_def
        dip_100_def dip_50_def dip_25_def amount_def)
  show ?thesis
    using h r1 outputs_rounded [OF h]
    by (simp add: select_tier_def dip_100_def dip_50_def dip_25_def amount_def)
qed

section \<open>The batch\<close>

lemma loop_skip:
  "extracted download ticker = None \<Longrightarrow>
   get_dip_loop download ((name, ticker) # rest) results = get_dip_loop download rest results"
  by (auto simp: extracted_def split: fetched.splits sum.splits if_splits)

lemma loop_take:
  "extracted download ticker = Some (c, m) \<Longrightarrow>
   get_dip_loop download ((name, ticker) # rest) results =
     (case classify name ticker c m of
        Inl e \<Rightarrow> Inl e
      | Inr r \<Rightarrow> get_dip_loop download rest (results @ [r]))"
  by (auto simp: extracted_def split: fetched.splits sum.splits if_splits)

declare get_dip_loop.simps(2) [simp del]

lemma classify_nonzero:
  "m \<noteq> 0 \<Longrightarrow> \<exists>r. classify name ticker c m = Inr r"
  by (simp add: classify_def dip_percent_def truediv_def split: prod.splits)

lemma classify_zero: "classify name ticker c 0 = Inl ZeroDivisionError"
  by (simp add: classify_def dip_percent_def truediv_def)

lemma get_dip_loop_entries:
  assumes "\<forall>(name, ticker)\<in>set xs. \<forall>c m. extracted download ticker = Some (c, m) \<longrightarrow> m \<noteq> 0"
  shows "\<exists>rs. get_dip_loop download xs acc = Inr (acc @ rs) \<and>
           map Inr rs =
             map (\<lambda>(name, ticker). classify name ticker
                    (fst (the (extracted download ticker)))
                    (snd (the (extracted download ticker))))
               (filter (\<lambda>(name, ticker). extracted download ticker \<noteq> None) xs)"
  using assms
proof (induction xs arbitrary: acc)
  case Nil
  then show ?case by simp
next
  case (Cons x xs)
  obtain name ticker where x: "x = (name, ticker)" by (cases x)
  from Cons.prems have rest:
    "\<forall>(name, ticker)\<in>set xs. \<forall>c m. extracted download ticker = Some (c, m) \<longrightarrow> m \<noteq> 0"
    by simp
  show ?case
  proof (cases "extracted download ticker")
    case None
    with Cons.IH [OF rest, of acc] x show ?thesis
      by (simp add: loop_skip)
  next
    case (Some p)
    obtain c m where p: "p = (c, m)" by (cases p)
    with Some Cons.prems x have "m \<noteq> 0" by auto
    then obtain r where r: "classify name ticker c m = Inr r"
      using classify_nonzero by blast
    from Cons.IH [OF rest, of "acc @ [r]"] obtain rs where
      rs: "get_dip_loop download xs (acc @ [r]) = Inr (acc @ [r] @ rs)"
        "map Inr rs =
           map (\<lambda>(name, ticker). classify name ticker
                  (fst (the (extracted download ticker)))
                  (snd (the (extracted download ticker))))
             (filter (\<lambda>(name, ticker). extracted download ticker \<noteq> None) xs)"
      by auto
    show ?thesis
      using Some p r rs x
      by (intro exI [of _ "r # rs"]) (simp add: loop_take)
  qed
qed

text \<open>
  C4 (as amended). Provided no extracted moving average is zero, the batch skips every
  instrument whose fetch raises, or returns nothing or an empty table, or whose extraction
  raises, and returns the entries of the other instruments in configuration order; when
  all are skipped it raises the single HTTP 404 error "No results available".
\<close>

theorem batch_skips_and_orders:
  assumes "\<forall>(name, ticker)\<in>set index_options.
             \<forall>c m. extracted download ticker = Some (c, m) \<longrightarrow> m \<noteq> 0"
  shows "\<exists>results.
           map Inr results =
             map (\<lambda>(name, ticker). classify name ticker
                    (fst (the (extracted download ticker)))
                    (snd (the (extracted download ticker))))
               (filter (\<lambda>(name, ticker). extracted download ticker \<noteq> None) index_options) \<and>
           get_dip download =
             (if results = [] then Inl (HTTPException 404 no_results) else Inr results)"
proof -
  from get_dip_loop_entries [OF assms, of "[]"] obtain rs where
    rs: "get_dip_loop download index_options [] = Inr rs"
      "map Inr rs =
         map (\<lambda>(name, ticker). classify name ticker
                (fst (the (extracted download ticker)))
                (snd (the (extracted download ticker))))
           (filter (\<lambda>(name, ticker). extracted download ticker \<noteq> None) index_options)"
    by auto
  then show ?thesis
    by (intro exI [of _ rs]) (simp add: get_dip_def)
qed

lemma extracted_sample:
  "extracted sample_download ''^GSPC'' = None"
  "extracted sample_download ''^NSEI'' = None"
  "extracted sample_download ''0P0001IAU9.BO'' = Some (7, 7)"
  "extracted sample_download ''0P0001Q0UH.BO'' = Some (7, 7)"
  "extracted sample_download ''^IXIC'' = Some (7, 7)"
  "extracted sample_download ''BTC-USD'' = Some (7, 7)"
  by (simp_all add: extracted_def sample_download_def extract_flat_const)
    (simp_all add: flat_frame_def df_empty_def)

lemma classify_flat: "x \<noteq> 0 \<Longrightarrow> classify name ticker x x = Inr (hold_entry name ticker (py_round x 2))"
  by (simp add: classify_def dip_percent_def truediv_def select_tier_def hold_entry_def
      dip_100_def dip_50_def dip_25_def)

text \<open>
  Six instruments, the fetch of the first raises and the fetch of the second returns
  nothing, the other four succeed: four entries, in configuration order.
\<close>

theorem batch_skips_and_orders_witness:
  "get_dip sample_download =
     Inr [hold_entry ''Nifty Midcap 150'' ''0P0001IAU9.BO'' 7,
          hold_entry ''Nifty Smallcap 250'' ''0P0001Q0UH.BO'' 7,
          hold_entry ''NASDAQ'' ''^IXIC'' 7,
          hold_entry ''BTC'' ''BTC-USD'' 7]"
proof -
  have h: "\<forall>(name, ticker)\<in>set index_options.
             \<forall>c m. extracted sample_download ticker = Some (c, m) \<longrightarrow> m \<noteq> 0"
    by (simp add: index_options_def extracted_sample)
  from batch_skips_and_orders [OF h] obtain results where
    r: "map Inr results =
             map (\<lambda>(name, ticker). classify name ticker
                    (fst (the (extracted sample_download ticker)))
                    (snd (the (extracted sample_download ticker))))
               (filter (\<lambda>(name, ticker). extracted sample_download ticker \<noteq> None) index_options)"
       "get_dip sample_download =
             (if results = [] then Inl (HTTPException 404 no_results) else Inr results)"
    by blast
  from r(1) have "results =
     [hold_entry ''Nifty Midcap 150'' ''0P0001IAU9.BO'' 7,
      hold_entry ''Nifty Smallcap 250'' ''0P0001Q0UH.BO'' 7,
      hold_entry ''NASDAQ'' ''^IXIC'' 7,
      hold_entry ''BTC'' ''BTC-USD'' 7]"
    by (auto simp: index_options_def extracted_sample classify_flat map_eq_Cons_conv)
  with r(2) show ?thesis by simp
qed

lemma extracted_mixed:
  "extracted mixed_download ''^GSPC'' = None"
  "extracted mixed_download ''^NSEI'' = Some (0, 0)"
  "extracted mixed_download ''0P0001IAU9.BO'' = Some (7, 7)"
  "extracted mixed_download ''0P0001Q0UH.BO'' = Some (7, 7)"
  "extracted mixed_download ''^IXIC'' = Some (7, 7)"
  "extracted mixed_download ''BTC-USD'' = Some (7, 7)"
  by (simp_all add: extracted_def mixed_download_def extract_flat_const)
    (simp_all add: flat_frame_def df_empty_def)

text \<open>
  C4 as stated fails. The first fetch raises, the second instrument has 200 closes of 0
  and the other four have 200 closes of 7: the first is skipped, the second extracts to
  the point (0, 0), the division raises ZeroDivisionError outside both \<^verbatim>\<open>try\<close> blocks,
  and the batch returns no list although four instruments would have produced entries.
\<close>

theorem batch_zero_average_counterexample:
  "extracted mixed_download ''^GSPC'' = None \<and>
   extracted mixed_download ''^NSEI'' = Some (0, 0) \<and>
   extracted mixed_download ''0P0001IAU9.BO'' = Some (7, 7) \<and>
   extracted mixed_download ''0P0001Q0UH.BO'' = Some (7, 7) \<and>
   extracted mixed_download ''^IXIC'' = Some (7, 7) \<and>
   extracted mixed_download ''BTC-USD'' = Some (7, 7) \<and>
   classify ''Nifty Midcap 150'' ''0P0001IAU9.BO'' 7 7 =
     Inr (hold_entry ''Nifty Midcap 150'' ''0P0001IAU9.BO'' 7) \<and>
   get_dip mixed_download = Inl ZeroDivisionError"
  by (simp add: extracted_mixed classify_flat classify_zero get_dip_def index_options_def
      loop_skip loop_take)

lemma extracted_zero: "extracted zero_download ticker = Some (0, 0)"
  by (simp add: extracted_def zero_download_def extract_flat_const)
    (simp add: flat_frame_def df_empty_def)

text \<open>
  C5 as stated fails: from 200 closes of 0 extraction returns the point (0, 0), the
  division raises ZeroDivisionError, and the exception leaves the batch.
\<close>

theorem classify_zero_counterexample:
  "get_last_close_and_dma (Some (flat_frame (replicate 200 (Some 0)))) = Inr (0, 0) \<and>
   classify ''S&P 500'' ''^GSPC'' 0 0 = Inl ZeroDivisionError \<and>
   get_dip zero_download = Inl ZeroDivisionError"
  by (simp add: extract_flat_const classify_zero get_dip_def index_options_def
      loop_take [OF extracted_zero])

text \<open>
  C5 (as amended). For every extracted point whose moving average is not zero the
  classification returns an entry, and when no extracted moving average is zero the batch
  raises nothing but the 404 error of an empty result list.
\<close>

theorem classify_total_nonzero:
  "(get_last_close_and_dma data = Inr (c, m) \<and> m \<noteq> 0 \<longrightarrow>
      (\<exists>r. classify name ticker c m = Inr r)) \<and>
   ((\<forall>(name, ticker)\<in>set index_options.
       \<forall>c m. extracted download ticker = Some (c, m) \<longrightarrow> m \<noteq> 0) \<longrightarrow>
      get_dip download = Inl (HTTPException 404 no_results) \<or>
      (\<exists>results. get_dip download = Inr results))"
proof (intro conjI impI)
  assume "get_last_close_and_dma data = Inr (c, m) \<and> m \<noteq> 0"
  then show "\<exists>r. classify name ticker c m = Inr r"
    using classify_nonzero by blast
next
  assume h: "\<forall>(name, ticker)\<in>set index_options.
       \<forall>c m. extracted download ticker = Some (c, m) \<longrightarrow> m \<noteq> 0"
  from get_dip_loop_entries [OF h, of "[]"] obtain rs where
    "get_dip_loop download index_options [] = Inr rs" by auto
  then show "get_dip download = Inl (HTTPException 404 no_results) \<or>
      (\<exists>results. get_dip download = Inr results)"
    by (simp add: get_dip_def)
qed

theorem classify_total_nonzero_witness:
  "get_last_close_and_dma (Some (flat_frame (replicate 200 (Some 7)))) = Inr (7, 7) \<and>
   (\<exists>r. classify ''BTC'' ''BTC-USD'' 7 7 = Inr r) \<and>
   (get_dip sample_download = Inl (HTTPException 404 no_results) \<or>
    (\<exists>results. get_dip sample_download = Inr results))"
proof -
  have e: "get_last_close_and_dma (Some (flat_frame (replicate 200 (Some 7)))) = Inr (7, 7)"
    by (rule extract_flat_const) simp
  have h: "\<forall>(name, ticker)\<in>set index_options.
             \<forall>c m. extracted sample_download ticker = Some (c, m) \<longrightarrow> m \<noteq> 0"
    by (simp add: index_options_def extracted_sample)
  show ?thesis
    using e h
      classify_total_nonzero [of "Some (flat_frame (replicate 200 (Some 7)))" 7 7
        "''BTC''" "''BTC-USD''" sample_download]
    by simp
qed

lemma select_tier_pairs:
  "(py_round (snd (select_tier dip)) 2, fst (select_tier dip)) \<in>
     {(100, action_100), (50, action_50), (25, action_25), (0, action_hold)}"
  by (simp add: select_tier_def amount_def)

lemma classify_tier:
  assumes "classify name ticker c m = Inr r"
  shows "(Deploy r, Action r) \<in>
           {(100, action_100), (50, action_50), (25, action_25), (0, action_hold)}"
proof (cases "dip_percent c m")
  case (Inl e)
  with assms show ?thesis by (simp add: classify_def)
next
  case (Inr dip)
  with assms have "Deploy r = py_round (snd (select_tier dip)) 2"
    "Action r = fst (select_tier dip)"
    by (auto simp: classify_def split: prod.splits)
  then show ?thesis
    using select_tier_pairs [of dip] by simp
qed

lemma get_dip_loop_tiers:
  assumes "get_dip_loop download xs acc = Inr rs"
    and "\<forall>r\<in>set acc. (Deploy r, Action r) \<in>
           {(100, action_100), (50, action_50), (25, action_25), (0, action_hold)}"
  shows "\<forall>r\<in>set rs. (Deploy r, Action r) \<in>
           {(100, action_100), (50, action_50), (25, action_25), (0, action_hold)}"
  using assms
proof (induction xs arbitrary: acc)
  case Nil
  then show ?case by simp
next
  case (Cons x xs)
  obtain name ticker where x: "x = (name, ticker)" by (cases x)
  show ?case
  proof (cases "extracted download ticker")
    case None
    with Cons.prems x have "get_dip_loop download xs acc = Inr rs"
      by (simp add: loop_skip)
    from Cons.IH [OF this Cons.prems(2)] show ?thesis .
  next
    case (Some p)
    obtain c m where p: "p = (c, m)" by (cases p)
    from Cons.prems(1) x Some p obtain r where
      r: "classify name ticker c m = Inr r" "get_dip_loop download xs (acc @ [r]) = Inr rs"
      by (auto simp: loop_take split: sum.splits)
    have "\<forall>r\<in>set (acc @ [r]). (Deploy r, Action r) \<in>
           {(100, action_100), (50, action_50), (25, action_25), (0, action_hold)}"
      using Cons.prems(2) classify_tier [OF r(1)] by auto
    from Cons.IH [OF r(2) this] show ?thesis .
  qed
qed

text \<open>
  C10. Every entry of a returned result list pairs a deploy amount of 100, 50, 25 or 0
  with the action label of that tier, and the amount never exceeds the capital of 100.
\<close>

theorem deploy_amounts:
  assumes "get_dip download = Inr results" and "r \<in> set results"
  shows "(Deploy r, Action r) \<in>
           {(100.0, action_100), (50.0, action_50), (25.0, action_25), (0, action_hold)} \<and>
         Deploy r \<le> amount"
proof -
  from assms(1) have "get_dip_loop download index_options [] = Inr results"
    by (auto simp: get_dip_def split: sum.splits if_splits)
  from get_dip_loop_tiers [OF this] assms(2)
  have "(Deploy r, Action r) \<in>
           {(100, action_100), (50, action_50), (25, action_25), (0, action_hold)}"
    by simp
  then show ?thesis by (auto simp: amount_def)
qed


lemma get_dip_sample:
  "get_dip sample_download =
     Inr [hold_entry ''Nifty Midcap 150'' ''0P0001IAU9.BO'' 7,
          hold_entry ''Nifty Smallcap 250'' ''0P0001Q0UH.BO'' 7,
          hold_entry ''NASDAQ'' ''^IXIC'' 7,
          hold_entry ''BTC'' ''BTC-USD'' 7]"
  by (simp add: get_dip_def index_options_def loop_skip loop_take extracted_sample classify_flat)

theorem deploy_amounts_witness:
  "get_dip sample_download =
     Inr [hold_entry ''Nifty Midcap 150'' ''0P0001IAU9.BO'' 7,
          hold_entry ''Nifty Smallcap 250'' ''0P0001Q0UH.BO'' 7,
          hold_entry ''NASDAQ'' ''^IXIC'' 7,
          hold_entry ''BTC'' ''BTC-USD'' 7] \<and>
   (Deploy (hold_entry ''NASDAQ'' ''^IXIC'' 7), Action (hold_entry ''NASDAQ'' ''^IXIC'' 7)) \<in>
     {(100.0, action_100), (50.0, action_50), (25.0, action_25), (0, action_hold)} \<and>
   Deploy (hold_entry ''NASDAQ'' ''^IXIC'' 7) \<le> amount"
proof -
  have "hold_entry ''NASDAQ'' ''^IXIC'' 7 \<in>
        set [hold_entry ''Nifty Midcap 150'' ''0P0001IAU9.BO'' 7,
             hold_entry ''Nifty Smallcap 250'' ''0P0001Q0UH.BO'' 7,
             hold_entry ''NASDAQ'' ''^IXIC'' 7,
             hold_entry ''BTC'' ''BTC-USD'' 7]"
    by simp
  from deploy_amounts [OF get_dip_sample this] get_dip_sample show ?thesis
    by blast
qed


end
